theory Spec2Isabelle
  imports Main "HOL-Library.Word"
begin

unbundle bit_operations_syntax

section \<open>Data model\<close>

subsection \<open>Configuration values (package entity)\<close>

record PrometheusConf =
  Enable :: bool
  Port :: int
  Address :: string

text \<open>A Go pointer is \<open>None\<close> when nil, so \<open>*PrometheusConf\<close> is an option.\<close>

record AppConf =
  PrometheusCfg :: "PrometheusConf option"

subsection \<open>Errors, loggers, channels\<close>

text \<open>A Go \<open>error\<close> value is identified by its message; a nil error is \<open>None\<close> of
  \<open>go_error option\<close>.\<close>

datatype go_error = GoError string

datatype Logger = ZapLogger string

text \<open>A buffered channel: its capacity and the values waiting in it, oldest first.\<close>

record 'a chan =
  cap :: nat
  buf :: "'a list"

definition make_chan :: "nat \<Rightarrow> 'a chan" where
  "make_chan n = \<lparr>cap = n, buf = []\<rparr>"

text \<open>A send completes when the buffer has room; otherwise the sender is parked
  (\<open>None\<close>).\<close>

definition chan_send :: "'a chan \<Rightarrow> 'a \<Rightarrow> 'a chan option" where
  "chan_send c v = (if length (buf c) < cap c then Some (c\<lparr>buf := buf c @ [v]\<rparr>) else None)"

subsection \<open>Collaborators\<close>

text \<open>\<open>CfgLoader\<close>: the result of \<open>LoadConfig\<close> may differ from call to call, so it is
  indexed by the number of calls made before it. Go returns the pair (pointer, error) and
  nothing relates the two components.\<close>

record CfgLoader =
  LoadConfig :: "nat \<Rightarrow> AppConf option \<times> go_error option"
  GetConfigPath :: string

text \<open>\<open>WatcherInterface\<close> (watcher.go). The two streams \<open>Events()\<close> and \<open>Errors()\<close> are
  given to the event loop as the list of what its \<open>select\<close> receives.\<close>

record WatcherInterface =
  Add :: "string \<Rightarrow> go_error option"
  Remove :: "string \<Rightarrow> go_error option"
  Close :: "go_error option"

text \<open>\<open>fsnotify.Event\<close> and the bits of \<open>fsnotify.Op\<close> (a \<open>uint32\<close>; the library declares
  \<open>Create Op = 1 << iota\<close>, then \<open>Write\<close>, \<open>Remove\<close>, \<open>Rename\<close>, \<open>Chmod\<close>).\<close>

record Event =
  Name :: string
  Op :: "32 word"

definition fsnotify_Create :: "32 word" where "fsnotify_Create = 1"
definition fsnotify_Write :: "32 word" where "fsnotify_Write = 2"
definition fsnotify_Remove :: "32 word" where "fsnotify_Remove = 4"
definition fsnotify_Rename :: "32 word" where "fsnotify_Rename = 8"
definition fsnotify_Chmod :: "32 word" where "fsnotify_Chmod = 16"

record RetryPolicy =
  MaxAttempts :: int
  Timeout :: int

subsection \<open>The manager\<close>

text \<open>What the manager does to the outside world, in order.\<close>

datatype effect =
    CallLoadConfig
  | CallWatcherAdd string
  | CallWatcherRemove string
  | CallWatcherClose
  | StoreConfig "AppConf option"
  | Sleep int
  | LogError string
  | LogInfo string
  | GoHandleFSNotify

text \<open>The struct \<open>CfgManager\<close>. \<open>config\<close> is the \<open>atomic.Value\<close>: \<open>None\<close> while nothing
  was stored, \<open>Some p\<close> once the pointer \<open>p\<close> (itself possibly nil) was stored. \<open>once\<close> is
  the done flag of the \<open>sync.Once\<close>. The loader and the logger are taken non-nil, the
  watcher is nil-able because \<open>cleanupWatcher\<close> clears it. \<open>rwMutex\<close> has no field: each
  function below that takes it runs as one step. Two fields are not in the struct:
  \<open>loadCalls\<close> counts the calls of \<open>LoadConfig\<close> and \<open>trace\<close> records the effects.\<close>

record CfgManager =
  loader :: CfgLoader
  config :: "AppConf option option"
  configChan :: "AppConf option chan"
  errorChan :: "go_error option chan"
  watcher :: "WatcherInterface option"
  once :: bool
  logger :: Logger
  retryPolicy :: RetryPolicy
  loadCalls :: nat
  trace :: "effect list"

text \<open>How far a call gets: it returns; it is parked on a send to the full error channel,
  holding the write lock, with the value it sends; it panics; (the event loop only) it is
  parked in its \<open>select\<close> with nothing to receive; or (a reload only) its attempt counter
  has wrapped around, after which the loop goes on, no longer ended by the count, and is
  not followed further. Each carries the state reached.\<close>

datatype 'a outcome =
    Returned CfgManager 'a
  | Blocked CfgManager "go_error option"
  | Panicked CfgManager string
  | Waiting CfgManager
  | Overflowed CfgManager "go_error option"

fun state_of :: "'a outcome \<Rightarrow> CfgManager" where
  "state_of (Returned s _) = s"
| "state_of (Blocked s _) = s"
| "state_of (Panicked s _) = s"
| "state_of (Waiting s) = s"
| "state_of (Overflowed s _) = s"

section \<open>Operations\<close>

definition emit :: "effect \<Rightarrow> CfgManager \<Rightarrow> CfgManager" where
  "emit e s = s\<lparr>trace := trace s @ [e]\<rparr>"

text \<open>\<open>cm.config.Store(newConfig)\<close>.\<close>

definition storeConfig :: "AppConf option \<Rightarrow> CfgManager \<Rightarrow> CfgManager" where
  "storeConfig newConfig s = emit (StoreConfig newConfig) (s\<lparr>config := Some newConfig\<rparr>)"

definition NewConfigManager ::
  "CfgLoader \<Rightarrow> WatcherInterface option \<Rightarrow> Logger \<Rightarrow> RetryPolicy \<Rightarrow> CfgManager" where
  "NewConfigManager l w lg rp =
     \<lparr>loader = l, config = None, configChan = make_chan 1, errorChan = make_chan 1,
      watcher = w, once = False, logger = lg, retryPolicy = rp, loadCalls = 0, trace = []\<rparr>"

text \<open>\<open>GetConfig\<close>, from the moment it holds the read lock:
  \<open>cm.config.Load().(*entity.AppConf)\<close>, where the type assertion panics on the nil
  interface that \<open>Load\<close> returns before any \<open>Store\<close>. While a reload is parked with the
  write lock, a call waits for the lock; it then acts on the state the reload leaves when
  it ends (\<open>ended\<close> below), not on the state of the parked reload.\<close>

definition GetConfig :: "CfgManager \<Rightarrow> (AppConf option) outcome" where
  "GetConfig s =
     (case config s of
        None \<Rightarrow> Panicked s ''interface conversion: interface {} is nil, not *entity.AppConf''
      | Some p \<Rightarrow> Returned s p)"

definition loadAndWatchConfig :: "CfgManager \<Rightarrow> (go_error option) outcome" where
  "loadAndWatchConfig s =
     (let (newConfig, err) = LoadConfig (loader s) (loadCalls s);
          s1 = emit CallLoadConfig (s\<lparr>loadCalls := Suc (loadCalls s)\<rparr>)
      in case err of
           Some e \<Rightarrow> Returned (emit (LogError ''Failed to load initial config'') s1) (Some e)
         | None \<Rightarrow>
             (let s2 = storeConfig newConfig s1;
                  configPath = GetConfigPath (loader s2)
              in case watcher s2 of
                   None \<Rightarrow> Panicked s2 ''runtime error: invalid memory address or nil pointer dereference''
                 | Some w \<Rightarrow>
                     (case Add w configPath of
                        Some e \<Rightarrow>
                          Returned (emit (LogError ''Failed to watch config file'')
                                      (emit (CallWatcherAdd configPath) s2)) (Some e)
                      | None \<Rightarrow>
                          Returned (emit GoHandleFSNotify
                                      (emit (CallWatcherAdd configPath) s2)) None)))"

text \<open>\<open>Init\<close>: \<open>once.Do\<close> runs the closure when the flag is unset and sets the flag when the
  closure is left (also by a panic); \<open>initErr\<close> is a local of each call, nil unless the
  closure of this very call assigned it.\<close>

definition Init :: "CfgManager \<Rightarrow> (go_error option) outcome" where
  "Init s =
     (if once s then Returned s None
      else case loadAndWatchConfig s of
             Returned s' initErr \<Rightarrow> Returned (s'\<lparr>once := True\<rparr>) initErr
           | Blocked s' e \<Rightarrow> Blocked s' e
           | Panicked s' m \<Rightarrow> Panicked (s'\<lparr>once := True\<rparr>) m
           | Waiting s' \<Rightarrow> Waiting s'
           | Overflowed s' e \<Rightarrow> Overflowed s' e)"

text \<open>\<open>math.MaxInt\<close>, the largest value of Go's \<open>int\<close> (64 bits).\<close>

definition MaxInt :: int where
  "MaxInt = 9223372036854775807"

text \<open>The loop of \<open>reloadConfig\<close>, from \<open>attempt\<close> on, with \<open>err\<close> the error remembered so
  far, and what follows the loop. \<open>attempt++\<close> at \<open>MaxInt\<close> wraps around to the least
  \<open>int\<close>: the condition \<open>attempt <= MaxAttempts\<close> then holds again and the loop goes on
  until a load succeeds; the function stops there with \<open>Overflowed\<close>.\<close>

function reloadAttempts :: "CfgManager \<Rightarrow> int \<Rightarrow> go_error option \<Rightarrow> unit outcome" where
  "reloadAttempts s attempt err =
     (if attempt \<le> MaxAttempts (retryPolicy s) then
        (let (newConfig, loadErr) = LoadConfig (loader s) (loadCalls s);
             s1 = emit CallLoadConfig (s\<lparr>loadCalls := Suc (loadCalls s)\<rparr>)
         in case loadErr of
              None \<Rightarrow> Returned (emit (LogInfo ''Config reloaded'') (storeConfig newConfig s1)) ()
            | Some e \<Rightarrow>
                (let s2 = emit (Sleep (Timeout (retryPolicy s1)))
                            (emit (LogError ''Error reloading config, retrying...'') s1)
                 in if attempt = MaxInt then Overflowed s2 (Some e)
                    else reloadAttempts s2 (attempt + 1) (Some e)))
      else
        (case chan_send (errorChan s) err of
           None \<Rightarrow> Blocked s err
         | Some ch \<Rightarrow>
             Returned (emit (LogError ''Failed to reload config after retries'')
                         (s\<lparr>errorChan := ch\<rparr>)) ()))"
  by pat_completeness auto
termination
  by (relation "measure (\<lambda>(s, attempt, err). nat (MaxAttempts (retryPolicy s) + 1 - attempt))")
     (auto simp: emit_def)

declare reloadAttempts.simps [simp del]

definition reloadConfig :: "CfgManager \<Rightarrow> unit outcome" where
  "reloadConfig s = reloadAttempts s 1 None"

definition processFSNotifyEvent :: "CfgManager \<Rightarrow> Event \<Rightarrow> unit outcome" where
  "processFSNotifyEvent s event =
     (if Op event AND fsnotify_Write = fsnotify_Write then reloadConfig s else Returned s ())"

definition cleanupWatcher :: "CfgManager \<Rightarrow> CfgManager" where
  "cleanupWatcher s =
     (let s1 = emit (LogInfo ''Config watcher stopped'') s
      in case watcher s1 of
           None \<Rightarrow> s1
         | Some w \<Rightarrow>
             (let s2 = emit CallWatcherClose s1;
                  s3 = (case Close w of
                          None \<Rightarrow> s2
                        | Some e \<Rightarrow> emit (LogError ''Failed to close watcher'') s2)
              in s3\<lparr>watcher := None\<rparr>))"

text \<open>What one \<open>select\<close> of the event loop receives.\<close>

datatype select_input =
    CtxDone
  | RecvEvent Event
  | EventsClosed
  | RecvError go_error
  | ErrorsClosed

text \<open>\<open>handleFSNotify\<close>, run on the inputs its \<open>select\<close> receives in turn. Entering the
  \<open>select\<close> evaluates \<open>cm.watcher.Events()\<close>, a panic on a nil watcher.\<close>

fun handleFSNotify :: "CfgManager \<Rightarrow> select_input list \<Rightarrow> unit outcome" where
  "handleFSNotify s [] =
     (case watcher s of
        None \<Rightarrow> Panicked s ''runtime error: invalid memory address or nil pointer dereference''
      | Some w \<Rightarrow> Waiting s)"
| "handleFSNotify s (i # inputs) =
     (case watcher s of
        None \<Rightarrow> Panicked s ''runtime error: invalid memory address or nil pointer dereference''
      | Some w \<Rightarrow>
          (case i of
             CtxDone \<Rightarrow> Returned (cleanupWatcher s) ()
           | RecvEvent event \<Rightarrow>
               (case processFSNotifyEvent s event of
                  Returned s' u \<Rightarrow> handleFSNotify s' inputs
                | Blocked s' e \<Rightarrow> Blocked s' e
                | Panicked s' m \<Rightarrow> Panicked s' m
                | Waiting s' \<Rightarrow> Waiting s'
                | Overflowed s' e \<Rightarrow> Overflowed s' e)
           | EventsClosed \<Rightarrow>
               Returned (emit (LogInfo ''Config watcher events channel closed'') s) ()
           | RecvError e \<Rightarrow> handleFSNotify (emit (LogError ''Watcher error'') s) inputs
           | ErrorsClosed \<Rightarrow>
               Returned (emit (LogInfo ''Config watcher errors channel closed'') s) ()))"

definition AddWatcher :: "CfgManager \<Rightarrow> string \<Rightarrow> CfgManager \<times> go_error option" where
  "AddWatcher s filePath =
     (case watcher s of
        None \<Rightarrow> (s, Some (GoError ''watcher not initialized''))
      | Some w \<Rightarrow> (emit (CallWatcherAdd filePath) s, Add w filePath))"

definition RemoveWatcher :: "CfgManager \<Rightarrow> string \<Rightarrow> CfgManager \<times> go_error option" where
  "RemoveWatcher s filePath =
     (case watcher s of
        None \<Rightarrow> (s, Some (GoError ''watcher not initialized''))
      | Some w \<Rightarrow> (emit (CallWatcherRemove filePath) s, Remove w filePath))"

definition ListenForConfigErrors :: "CfgManager \<Rightarrow> go_error option chan" where
  "ListenForConfigErrors s = errorChan s"

subsection \<open>Parser selection\<close>

datatype CfgParser = JSONParser Logger | YAMLParser Logger

text \<open>\<open>strings.HasPrefix\<close>.\<close>

definition HasPrefix :: "string \<Rightarrow> string \<Rightarrow> bool" where
  "HasPrefix s p = (length p \<le> length s \<and> take (length p) s = p)"

definition NewParser :: "string \<Rightarrow> Logger option \<Rightarrow> CfgParser option \<times> go_error option" where
  "NewParser fileExtension lg =
     (case lg of
        None \<Rightarrow> (None, Some (GoError ''logger is required''))
      | Some l \<Rightarrow>
          (let ext = (if \<not> HasPrefix fileExtension ''.'' then ''.'' @ fileExtension
                      else fileExtension)
           in if ext = ''.json'' then (Some (JSONParser l), None)
              else if ext = ''.yaml'' \<or> ext = ''.yml'' then (Some (YAMLParser l), None)
              else (None, Some (GoError (''unsupported file extension: '' @ ext)))))"

section \<open>Runs of the manager\<close>

text \<open>A receive by whoever listens on \<open>ListenForConfigErrors\<close>.\<close>

definition chan_recv :: "'a chan \<Rightarrow> ('a \<times> 'a chan) option" where
  "chan_recv c = (case buf c of [] \<Rightarrow> None | v # vs \<Rightarrow> Some (v, c\<lparr>buf := vs\<rparr>))"

text \<open>How a parked reload ends: the listener receives the oldest value of the error
  channel (on a channel without buffer, the value sent itself), the send completes, and
  \<open>reloadConfig\<close> writes its last log entry and returns, releasing the write lock.\<close>

definition unpark :: "CfgManager \<Rightarrow> go_error option \<Rightarrow> CfgManager" where
  "unpark s err =
     emit (LogError ''Failed to reload config after retries'')
       (s\<lparr>errorChan :=
            (case buf (errorChan s) of
               [] \<Rightarrow> errorChan s
             | v # vs \<Rightarrow> (errorChan s)\<lparr>buf := vs @ [err]\<rparr>)\<rparr>)"

text \<open>The state a call leaves once it has ended; for a call that does not end (a panic,
  the event loop waiting, a wrapped counter), the state it has reached.\<close>

fun ended :: "'a outcome \<Rightarrow> CfgManager" where
  "ended (Returned s _) = s"
| "ended (Blocked s e) = unpark s e"
| "ended (Panicked s _) = s"
| "ended (Waiting s) = s"
| "ended (Overflowed s _) = s"

text \<open>The calls that reach a manager, from its callers and from its background task, and
  the state each leaves behind. A run is any sequence of them, in any order; the write
  lock makes every call that follows a reload start from the state the reload left when
  it ended.\<close>

datatype action =
    CallInit
  | CallGetConfig
  | CallAddWatcher string
  | CallRemoveWatcher string
  | CallReloadConfig
  | RunHandleFSNotify "select_input list"
  | RecvConfigError

fun perform :: "action \<Rightarrow> CfgManager \<Rightarrow> CfgManager" where
  "perform CallInit s = ended (Init s)"
| "perform CallGetConfig s = ended (GetConfig s)"
| "perform (CallAddWatcher p) s = fst (AddWatcher s p)"
| "perform (CallRemoveWatcher p) s = fst (RemoveWatcher s p)"
| "perform CallReloadConfig s = ended (reloadConfig s)"
| "perform (RunHandleFSNotify inputs) s = ended (handleFSNotify s inputs)"
| "perform RecvConfigError s =
     (case chan_recv (ListenForConfigErrors s) of
        None \<Rightarrow> s
      | Some (e, ch) \<Rightarrow> s\<lparr>errorChan := ch\<rparr>)"

definition run :: "action list \<Rightarrow> CfgManager \<Rightarrow> CfgManager" where
  "run acts s = fold perform acts s"

text \<open>The snapshot after the \<open>n\<close> calls of \<open>LoadConfig\<close> numbered \<open>k\<close>, ..., \<open>k + n - 1\<close>,
  when it was \<open>c\<close> before them and every call that returns a nil error is followed by
  the store of its pointer: the pointer of the last of these calls that returned a nil
  error, and \<open>c\<close> when there is none.\<close>

fun latestLoad ::
  "CfgLoader \<Rightarrow> AppConf option option \<Rightarrow> nat \<Rightarrow> nat \<Rightarrow> AppConf option option" where
  "latestLoad l c k 0 = c"
| "latestLoad l c k (Suc n) =
     (case snd (LoadConfig l (k + n)) of
        None \<Rightarrow> Some (fst (LoadConfig l (k + n)))
      | Some e \<Rightarrow> latestLoad l c k n)"

text \<open>What no call changes, and how the snapshot follows the calls of \<open>LoadConfig\<close> made
  in between.\<close>

definition evolves :: "CfgManager \<Rightarrow> CfgManager \<Rightarrow> bool" where
  "evolves s s' \<longleftrightarrow>
     loader s' = loader s \<and> configChan s' = configChan s \<and> retryPolicy s' = retryPolicy s \<and>
     logger s' = logger s \<and> loadCalls s \<le> loadCalls s' \<and>
     (watcher s = None \<longrightarrow> watcher s' = None) \<and> (once s \<longrightarrow> once s') \<and>
     config s' = latestLoad (loader s) (config s) (loadCalls s) (loadCalls s' - loadCalls s)"

text \<open>The effects of \<open>n\<close> failed attempts of a reload with delay \<open>t\<close>.\<close>

definition retryEffects :: "nat \<Rightarrow> int \<Rightarrow> effect list" where
  "retryEffects n t =
     concat (replicate n
       [CallLoadConfig, LogError ''Error reloading config, retrying...'', Sleep t])"

text \<open>The effects a call added to the trace.\<close>

definition effects_since :: "CfgManager \<Rightarrow> CfgManager \<Rightarrow> effect list" where
  "effects_since s s' = drop (length (trace s)) (trace s')"

subsection \<open>Collaborators of the tests\<close>

definition appConf :: AppConf where
  "appConf = \<lparr>PrometheusCfg = Some \<lparr>Enable = True, Port = 9090, Address = ''127.0.0.1''\<rparr>\<rparr>"

definition mockLoader_ok :: CfgLoader where
  "mockLoader_ok = \<lparr>LoadConfig = (\<lambda>k. (Some appConf, None)), GetConfigPath = ''/path/to/config''\<rparr>"

definition mockLoader_failing :: CfgLoader where
  "mockLoader_failing =
     \<lparr>LoadConfig = (\<lambda>k. (None, Some (GoError ''load error''))),
      GetConfigPath = ''/path/to/config''\<rparr>"


text \<open>A loader whose first call succeeds and whose later calls fail.\<close>

definition mockLoader_ok_then_failing :: CfgLoader where
  "mockLoader_ok_then_failing =
     \<lparr>LoadConfig = (\<lambda>k. if k = 0 then (Some appConf, None)
                          else (None, Some (GoError ''load error''))),
      GetConfigPath = ''/path/to/config''\<rparr>"



definition mockWatcher_ok :: WatcherInterface where
  "mockWatcher_ok = \<lparr>Add = (\<lambda>p. None), Remove = (\<lambda>p. None), Close = None\<rparr>"

definition mockWatcher_addFails :: WatcherInterface where
  "mockWatcher_addFails =
     \<lparr>Add = (\<lambda>p. Some (GoError ''add error'')), Remove = (\<lambda>p. None), Close = None\<rparr>"

definition devLogger :: Logger where
  "devLogger = ZapLogger ''development''"

definition retry3 :: RetryPolicy where
  "retry3 = \<lparr>MaxAttempts = 3, Timeout = 50000000\<rparr>"

text \<open>Managers: one whose loader always fails, one whose watcher refuses the path, one
  whose reads of the file fail after a successful \<open>Init\<close>, one whose loader returns
  neither a configuration nor an error.\<close>

definition cm_failing :: CfgManager where
  "cm_failing = NewConfigManager mockLoader_failing (Some mockWatcher_ok) devLogger retry3"

definition cm_unwatched :: CfgManager where
  "cm_unwatched = NewConfigManager mockLoader_ok (Some mockWatcher_addFails) devLogger retry3"

definition cm_fresh :: CfgManager where
  "cm_fresh = NewConfigManager mockLoader_ok_then_failing (Some mockWatcher_ok) devLogger retry3"

definition cm_published :: CfgManager where
  "cm_published = state_of (Init cm_fresh)"


text \<open>The manager of \<open>cm_published\<close> after a reload that failed, its error not yet
  received.\<close>

definition cm_undrained :: CfgManager where
  "cm_undrained = ended (reloadConfig cm_published)"


definition writeEvent :: Event where
  "writeEvent = \<lparr>Name = ''/path/to/config'', Op = fsnotify_Write\<rparr>"

definition chmodEvent :: Event where
  "chmodEvent = \<lparr>Name = ''/path/to/config'', Op = fsnotify_Chmod\<rparr>"

section \<open>Basic facts\<close>

lemma cm_published_eq:
  "cm_published =
     \<lparr>loader = mockLoader_ok_then_failing, config = Some (Some appConf),
      configChan = \<lparr>cap = 1, buf = []\<rparr>, errorChan = \<lparr>cap = 1, buf = []\<rparr>,
      watcher = Some mockWatcher_ok, once = True, logger = devLogger, retryPolicy = retry3,
      loadCalls = 1,
      trace = [CallLoadConfig, StoreConfig (Some appConf), CallWatcherAdd ''/path/to/config'',
               GoHandleFSNotify]\<rparr>"
  by (simp add: cm_published_def cm_fresh_def Init_def loadAndWatchConfig_def
      NewConfigManager_def make_chan_def Let_def emit_def storeConfig_def
      mockLoader_ok_then_failing_def mockWatcher_ok_def)

lemma Init_cm_fresh: "Init cm_fresh = Returned cm_published None"
  by (simp add: cm_fresh_def cm_published_def Init_def loadAndWatchConfig_def
      NewConfigManager_def Let_def emit_def storeConfig_def mockLoader_ok_then_failing_def
      mockWatcher_ok_def)

lemma emit_simps [simp]:
  "loader (emit e s) = loader s" "config (emit e s) = config s"
  "configChan (emit e s) = configChan s" "errorChan (emit e s) = errorChan s"
  "watcher (emit e s) = watcher s" "once (emit e s) = once s"
  "retryPolicy (emit e s) = retryPolicy s" "loadCalls (emit e s) = loadCalls s"
  "trace (emit e s) = trace s @ [e]" "logger (emit e s) = logger s"
  by (simp_all add: emit_def)

lemma storeConfig_simps [simp]:
  "loader (storeConfig c s) = loader s" "config (storeConfig c s) = Some c"
  "configChan (storeConfig c s) = configChan s" "errorChan (storeConfig c s) = errorChan s"
  "watcher (storeConfig c s) = watcher s" "once (storeConfig c s) = once s"
  "retryPolicy (storeConfig c s) = retryPolicy s" "loadCalls (storeConfig c s) = loadCalls s"
  "trace (storeConfig c s) = trace s @ [StoreConfig c]" "logger (storeConfig c s) = logger s"
  by (simp_all add: storeConfig_def)

lemma unpark_simps [simp]:
  "loader (unpark s e) = loader s" "config (unpark s e) = config s"
  "configChan (unpark s e) = configChan s"
  "watcher (unpark s e) = watcher s" "once (unpark s e) = once s"
  "retryPolicy (unpark s e) = retryPolicy s" "loadCalls (unpark s e) = loadCalls s"
  "trace (unpark s e) = trace s @ [LogError ''Failed to reload config after retries'']"
  "logger (unpark s e) = logger s"
  by (simp_all add: unpark_def)

lemma retryEffects_Suc:
  "retryEffects (Suc n) t =
     [CallLoadConfig, LogError ''Error reloading config, retrying...'', Sleep t] @ retryEffects n t"
  by (simp add: retryEffects_def)

subsection \<open>A reload whose attempts all fail\<close>

text \<open>Below \<open>MaxInt\<close>, \<open>n\<close> failing attempts in a row take the loop to its exit, with the
  last error remembered, and touch nothing but the call counter and the trace.\<close>

lemma reloadAttempts_all_fail:
  assumes "int n = MaxAttempts (retryPolicy s) + 1 - a"
    and "MaxAttempts (retryPolicy s) < MaxInt"
    and "\<forall>k<n. snd (LoadConfig (loader s) (loadCalls s + k)) \<noteq> None"
  shows "reloadAttempts s a err =
     reloadAttempts
       (s\<lparr>loadCalls := loadCalls s + n,
          trace := trace s @ retryEffects n (Timeout (retryPolicy s))\<rparr>)
       (MaxAttempts (retryPolicy s) + 1)
       (if n = 0 then err else snd (LoadConfig (loader s) (loadCalls s + n - 1)))"
  using assms
proof (induction n arbitrary: s a err)
  case 0
  then have "a = MaxAttempts (retryPolicy s) + 1" by simp
  then show ?case by (simp add: retryEffects_def)
next
  case (Suc n)
  from Suc.prems(1) have le: "a \<le> MaxAttempts (retryPolicy s)" by simp
  with Suc.prems(2) have ne: "a \<noteq> MaxInt" by simp
  from Suc.prems(3) obtain c e where ld: "LoadConfig (loader s) (loadCalls s) = (c, Some e)"
    by (metis add.right_neutral not_None_eq prod.collapse zero_less_Suc)
  let ?s1 = "emit (Sleep (Timeout (retryPolicy s)))
               (emit (LogError ''Error reloading config, retrying...'')
                  (emit CallLoadConfig (s\<lparr>loadCalls := Suc (loadCalls s)\<rparr>)))"
  have step: "reloadAttempts s a err = reloadAttempts ?s1 (a + 1) (Some e)"
    using le ne ld by (subst reloadAttempts.simps) (simp add: Let_def)
  have n1: "int n = MaxAttempts (retryPolicy ?s1) + 1 - (a + 1)"
    using Suc.prems(1) by simp
  have b1: "MaxAttempts (retryPolicy ?s1) < MaxInt"
    using Suc.prems(2) by simp
  have n2: "\<forall>k<n. snd (LoadConfig (loader ?s1) (loadCalls ?s1 + k)) \<noteq> None"
    using Suc.prems(3) by (auto dest: spec [where x = "Suc k" for k])
  have st: "?s1\<lparr>loadCalls := loadCalls ?s1 + n,
                 trace := trace ?s1 @ retryEffects n (Timeout (retryPolicy ?s1))\<rparr>
            = s\<lparr>loadCalls := loadCalls s + Suc n,
                 trace := trace s @ retryEffects (Suc n) (Timeout (retryPolicy s))\<rparr>"
    by (simp add: emit_def retryEffects_Suc)
  have er: "(if n = 0 then Some e else snd (LoadConfig (loader ?s1) (loadCalls ?s1 + n - 1)))
            = snd (LoadConfig (loader s) (loadCalls s + Suc n - 1))"
    using ld by (cases n) simp_all
  show ?case
    unfolding step Suc.IH [OF n1 b1 n2, of "Some e"] st er by simp
qed

lemma reloadAttempts_exit:
  "MaxAttempts (retryPolicy s) < a \<Longrightarrow>
   reloadAttempts s a err =
     (case chan_send (errorChan s) err of
        None \<Rightarrow> Blocked s err
      | Some ch \<Rightarrow>
          Returned (emit (LogError ''Failed to reload config after retries'')
                      (s\<lparr>errorChan := ch\<rparr>)) ())"
  by (subst reloadAttempts.simps) simp

lemma retryEffects_snoc:
  "retryEffects (Suc n) t =
     retryEffects n t @ [CallLoadConfig, LogError ''Error reloading config, retrying...'', Sleep t]"
  unfolding retryEffects_def by (induction n) simp_all

lemma reloadAttempts_failures:
  assumes "a + int n \<le> MaxAttempts (retryPolicy s) + 1"
    and "a + int n \<le> MaxInt"
    and "\<forall>k<n. snd (LoadConfig (loader s) (loadCalls s + k)) \<noteq> None"
  shows "reloadAttempts s a err =
     reloadAttempts
       (s\<lparr>loadCalls := loadCalls s + n,
          trace := trace s @ retryEffects n (Timeout (retryPolicy s))\<rparr>)
       (a + int n)
       (if n = 0 then err else snd (LoadConfig (loader s) (loadCalls s + n - 1)))"
  using assms
proof (induction n arbitrary: s a err)
  case 0
  then show ?case by (simp add: retryEffects_def)
next
  case (Suc n)
  from Suc.prems(1) have le: "a \<le> MaxAttempts (retryPolicy s)" by simp
  from Suc.prems(2) have ne: "a \<noteq> MaxInt" by simp
  from Suc.prems(3) obtain c e where ld: "LoadConfig (loader s) (loadCalls s) = (c, Some e)"
    by (metis add.right_neutral not_None_eq prod.collapse zero_less_Suc)
  let ?s1 = "emit (Sleep (Timeout (retryPolicy s)))
               (emit (LogError ''Error reloading config, retrying...'')
                  (emit CallLoadConfig (s\<lparr>loadCalls := Suc (loadCalls s)\<rparr>)))"
  have step: "reloadAttempts s a err = reloadAttempts ?s1 (a + 1) (Some e)"
    using le ne ld by (subst reloadAttempts.simps) (simp add: Let_def)
  have n1: "a + 1 + int n \<le> MaxAttempts (retryPolicy ?s1) + 1"
    using Suc.prems(1) by simp
  have b1: "a + 1 + int n \<le> MaxInt"
    using Suc.prems(2) by simp
  have n2: "\<forall>k<n. snd (LoadConfig (loader ?s1) (loadCalls ?s1 + k)) \<noteq> None"
    using Suc.prems(3) by (auto dest: spec [where x = "Suc k" for k])
  have st: "?s1\<lparr>loadCalls := loadCalls ?s1 + n,
                 trace := trace ?s1 @ retryEffects n (Timeout (retryPolicy ?s1))\<rparr>
            = s\<lparr>loadCalls := loadCalls s + Suc n,
                 trace := trace s @ retryEffects (Suc n) (Timeout (retryPolicy s))\<rparr>"
    by (simp add: emit_def retryEffects_Suc)
  have er: "(if n = 0 then Some e else snd (LoadConfig (loader ?s1) (loadCalls ?s1 + n - 1)))
            = snd (LoadConfig (loader s) (loadCalls s + Suc n - 1))"
    using ld by (cases n) simp_all
  have ar: "a + 1 + int n = a + int (Suc n)" by simp
  show ?case
    unfolding step Suc.IH [OF n1 b1 n2, of "Some e"] st er ar by simp
qed

text \<open>At \<open>MaxAttempts = MaxInt\<close> a reload whose loads keep failing reaches the attempt
  numbered \<open>MaxInt\<close>, where the counter wraps: it has sent nothing.\<close>

lemma reloadConfig_counter_wraps:
  assumes "MaxInt \<le> MaxAttempts (retryPolicy s)"
    and "\<forall>k<nat MaxInt. snd (LoadConfig (loader s) (loadCalls s + k)) \<noteq> None"
  shows "reloadConfig s =
     Overflowed
       (s\<lparr>loadCalls := loadCalls s + nat MaxInt,
          trace := trace s @ retryEffects (nat MaxInt) (Timeout (retryPolicy s))\<rparr>)
       (snd (LoadConfig (loader s) (loadCalls s + nat MaxInt - 1)))"
proof -
  define n where "n = nat MaxInt - 1"
  have N: "nat MaxInt = Suc n" "1 + int n = MaxInt"
    by (simp_all add: n_def MaxInt_def)
  let ?s = "s\<lparr>loadCalls := loadCalls s + n,
               trace := trace s @ retryEffects n (Timeout (retryPolicy s))\<rparr>"
  have f: "\<forall>k<n. snd (LoadConfig (loader s) (loadCalls s + k)) \<noteq> None"
    using assms(2) N(1) by simp
  from assms(2) N(1) obtain c e where
    ld: "LoadConfig (loader s) (loadCalls s + n) = (c, Some e)"
    by (metis lessI not_None_eq prod.collapse)
  have "reloadConfig s = reloadAttempts ?s MaxInt
          (if n = 0 then None else snd (LoadConfig (loader s) (loadCalls s + n - 1)))"
    unfolding reloadConfig_def
    using reloadAttempts_failures [of 1 n s None] assms(1) N(2) f by simp
  also have "\<dots> = Overflowed
       (emit (Sleep (Timeout (retryPolicy s)))
          (emit (LogError ''Error reloading config, retrying...'')
             (emit CallLoadConfig (?s\<lparr>loadCalls := Suc (loadCalls ?s)\<rparr>))))
       (Some e)"
    using assms(1) ld by (subst reloadAttempts.simps) (simp add: Let_def)
  also have "\<dots> = Overflowed
       (s\<lparr>loadCalls := loadCalls s + nat MaxInt,
          trace := trace s @ retryEffects (nat MaxInt) (Timeout (retryPolicy s))\<rparr>)
       (snd (LoadConfig (loader s) (loadCalls s + nat MaxInt - 1)))"
    using ld by (simp add: N(1) emit_def retryEffects_snoc)
  finally show ?thesis .
qed

subsection \<open>The latest successful load\<close>

lemma latestLoad_append:
  "latestLoad l (latestLoad l c k n) (k + n) m = latestLoad l c k (n + m)"
  by (induction m) (auto simp: add.assoc split: option.splits)



subsection \<open>What every call preserves\<close>

lemma evolves_refl: "evolves s s"
  by (simp add: evolves_def)

lemma evolves_trans:
  assumes "evolves s t" and "evolves t u"
  shows "evolves s u"
proof -
  from assms have le: "loadCalls s \<le> loadCalls t" "loadCalls t \<le> loadCalls u"
    by (simp_all add: evolves_def)
  have "config u = latestLoad (loader s) (config t) (loadCalls t) (loadCalls u - loadCalls t)"
    using assms by (simp add: evolves_def)
  also have "config t = latestLoad (loader s) (config s) (loadCalls s) (loadCalls t - loadCalls s)"
    using assms by (simp add: evolves_def)
  also have "latestLoad (loader s)
               (latestLoad (loader s) (config s) (loadCalls s) (loadCalls t - loadCalls s))
               (loadCalls t) (loadCalls u - loadCalls t)
             = latestLoad (loader s) (config s) (loadCalls s) (loadCalls u - loadCalls s)"
    using latestLoad_append [of "loader s" "config s" "loadCalls s" "loadCalls t - loadCalls s"
        "loadCalls u - loadCalls t"] le
    by simp
  finally show ?thesis using assms by (simp add: evolves_def)
qed

lemma evolves_emit: "evolves s (emit e s)"
  by (simp add: evolves_def)

lemma evolves_unpark: "evolves s (unpark s e)"
  by (simp add: evolves_def)

lemma evolves_ended: "evolves s (state_of r) \<Longrightarrow> evolves s (ended r)"
  by (cases r) (auto intro: evolves_trans evolves_unpark)

lemma evolves_failed_attempt:
  "snd (LoadConfig (loader s) (loadCalls s)) = Some e \<Longrightarrow>
   evolves s (emit (Sleep t)
               (emit (LogError ''Error reloading config, retrying...'')
                  (emit CallLoadConfig (s\<lparr>loadCalls := Suc (loadCalls s)\<rparr>))))"
  by (simp add: evolves_def)

lemma evolves_reloadAttempts: "evolves s (state_of (reloadAttempts s a e))"
proof (induction s a e rule: reloadAttempts.induct)
  case (1 s attempt err)
  show ?case
  proof (cases "attempt \<le> MaxAttempts (retryPolicy s)")
    case False
    then show ?thesis
      by (simp add: reloadAttempts.simps [of s attempt err] chan_send_def evolves_def)
  next
    case True
    obtain c le where ld: "LoadConfig (loader s) (loadCalls s) = (c, le)"
      by (cases "LoadConfig (loader s) (loadCalls s)")
    show ?thesis
    proof (cases le)
      case None
      with True ld show ?thesis
        by (simp add: reloadAttempts.simps [of s attempt err] evolves_def)
    next
      case (Some e)
      let ?s1 = "emit (Sleep (Timeout (retryPolicy s)))
               (emit (LogError ''Error reloading config, retrying...'')
                  (emit CallLoadConfig (s\<lparr>loadCalls := Suc (loadCalls s)\<rparr>)))"
      have s1: "evolves s ?s1"
        using ld Some by (intro evolves_failed_attempt) simp
      show ?thesis
      proof (cases "attempt = MaxInt")
        case wrap: True
        have "reloadAttempts s attempt err = Overflowed ?s1 (Some e)"
          using True ld Some wrap by (subst reloadAttempts.simps) (simp add: Let_def)
        with s1 show ?thesis by simp
      next
        case nowrap: False
        have eq: "reloadAttempts s attempt err = reloadAttempts ?s1 (attempt + 1) (Some e)"
          using True ld Some nowrap by (simp add: reloadAttempts.simps [of s attempt err])
        have "evolves ?s1 (state_of (reloadAttempts ?s1 (attempt + 1) (Some e)))"
          using "1.IH" [OF True refl ld [symmetric] refl Some refl nowrap] by simp
        with s1 show ?thesis unfolding eq by (rule evolves_trans)
      qed
    qed
  qed
qed

lemma evolves_reloadConfig: "evolves s (state_of (reloadConfig s))"
  by (simp add: reloadConfig_def evolves_reloadAttempts)

lemma evolves_cleanupWatcher: "evolves s (cleanupWatcher s)"
  by (simp add: cleanupWatcher_def evolves_def Let_def split: option.splits)

lemma evolves_processFSNotifyEvent: "evolves s (state_of (processFSNotifyEvent s ev))"
  by (simp add: processFSNotifyEvent_def evolves_reloadConfig evolves_refl)

lemma evolves_handleFSNotify: "evolves s (state_of (handleFSNotify s inputs))"
proof (induction inputs arbitrary: s)
  case Nil
  show ?case by (simp add: evolves_refl split: option.splits)
next
  case (Cons i inputs)
  show ?case
  proof (cases "watcher s")
    case None
    then show ?thesis by (simp add: evolves_refl)
  next
    case (Some w)
    show ?thesis
    proof (cases i)
      case CtxDone
      with Some show ?thesis by (simp add: evolves_cleanupWatcher)
    next
      case (RecvEvent ev)
      have e1: "evolves s (state_of (processFSNotifyEvent s ev))"
        by (rule evolves_processFSNotifyEvent)
      show ?thesis
      proof (cases "processFSNotifyEvent s ev")
        case (Returned s' u)
        with e1 have "evolves s s'" by simp
        moreover have "evolves s' (state_of (handleFSNotify s' inputs))" by (rule Cons.IH)
        ultimately show ?thesis using Some RecvEvent Returned
          by (simp add: evolves_trans [of s s'])
      qed (use e1 Some RecvEvent in simp_all)
    next
      case EventsClosed
      with Some show ?thesis by (simp add: evolves_emit)
    next
      case (RecvError e)
      have "evolves s (emit (LogError ''Watcher error'') s)" by (rule evolves_emit)
      moreover have "evolves (emit (LogError ''Watcher error'') s)
          (state_of (handleFSNotify (emit (LogError ''Watcher error'') s) inputs))"
        by (rule Cons.IH)
      ultimately show ?thesis using Some RecvError
        by (simp add: evolves_trans [of s "emit (LogError ''Watcher error'') s"])
    next
      case ErrorsClosed
      with Some show ?thesis by (simp add: evolves_emit)
    qed
  qed
qed

lemma evolves_loadAndWatchConfig: "evolves s (state_of (loadAndWatchConfig s))"
  by (auto simp: loadAndWatchConfig_def evolves_def Let_def split: prod.splits option.splits)

lemma evolves_Init: "evolves s (state_of (Init s))"
  using evolves_loadAndWatchConfig [of s]
  by (cases "loadAndWatchConfig s") (auto simp: Init_def evolves_def)

lemma evolves_perform: "evolves s (perform a s)"
proof (cases a)
  case CallInit
  then show ?thesis by (simp add: evolves_Init evolves_ended)
next
  case CallGetConfig
  then show ?thesis by (simp add: GetConfig_def evolves_refl split: option.splits)
next
  case (CallAddWatcher p)
  then show ?thesis by (simp add: AddWatcher_def evolves_refl evolves_emit split: option.splits)
next
  case (CallRemoveWatcher p)
  then show ?thesis
    by (simp add: RemoveWatcher_def evolves_refl evolves_emit split: option.splits)
next
  case CallReloadConfig
  then show ?thesis by (simp add: evolves_reloadConfig evolves_ended)
next
  case (RunHandleFSNotify inputs)
  then show ?thesis by (simp add: evolves_handleFSNotify evolves_ended)
next
  case RecvConfigError
  then show ?thesis by (simp add: evolves_def split: option.splits)
qed

lemma evolves_run: "evolves s (run acts s)"
  unfolding run_def
proof (induction acts arbitrary: s)
  case Nil
  show ?case by (simp add: evolves_refl)
next
  case (Cons a acts)
  have "evolves s (perform a s)" by (rule evolves_perform)
  moreover have "evolves (perform a s) (fold perform acts (perform a s))" by (rule Cons.IH)
  ultimately show ?case by (simp add: evolves_trans [of s "perform a s"])
qed

subsection \<open>A reload leaves a trace and calls the loader\<close>

lemma reloadAttempts_Returned_trace:
  "reloadAttempts s a e = Returned s' u \<Longrightarrow> length (trace s) < length (trace s')"
proof (induction s a e rule: reloadAttempts.induct)
  case (1 s attempt err)
  show ?case
  proof (cases "attempt \<le> MaxAttempts (retryPolicy s)")
    case False
    with "1.prems" show ?thesis
      by (auto simp: reloadAttempts.simps [of s attempt err] chan_send_def split: if_splits)
  next
    case True
    obtain c le where ld: "LoadConfig (loader s) (loadCalls s) = (c, le)"
      by (cases "LoadConfig (loader s) (loadCalls s)")
    show ?thesis
    proof (cases le)
      case None
      with True ld "1.prems" show ?thesis
        by (auto simp: reloadAttempts.simps [of s attempt err])
    next
      case (Some e)
      let ?s1 = "emit (Sleep (Timeout (retryPolicy s)))
               (emit (LogError ''Error reloading config, retrying...'')
                  (emit CallLoadConfig (s\<lparr>loadCalls := Suc (loadCalls s)\<rparr>)))"
      have nowrap: "attempt \<noteq> MaxInt"
        using True ld Some "1.prems"
        by (auto simp: reloadAttempts.simps [of s attempt err] Let_def split: if_splits)
      have eq: "reloadAttempts s attempt err = reloadAttempts ?s1 (attempt + 1) (Some e)"
        using True ld Some nowrap by (simp add: reloadAttempts.simps [of s attempt err])
      have "length (trace ?s1) < length (trace s')"
        using "1.IH" [OF True refl ld [symmetric] refl Some refl nowrap] "1.prems" eq by simp
      then show ?thesis by simp
    qed
  qed
qed

lemma reloadConfig_not_idle: "reloadConfig s \<noteq> Returned s u"
  using reloadAttempts_Returned_trace [of s 1 None s u] by (auto simp: reloadConfig_def)

lemma reloadAttempts_calls_loader:
  assumes "a \<le> MaxAttempts (retryPolicy s)"
  shows "loadCalls s < loadCalls (state_of (reloadAttempts s a e))"
proof -
  obtain c le where ld: "LoadConfig (loader s) (loadCalls s) = (c, le)"
    by (cases "LoadConfig (loader s) (loadCalls s)")
  show ?thesis
  proof (cases le)
    case None
    with assms ld show ?thesis by (simp add: reloadAttempts.simps [of s a e])
  next
    case (Some x)
    let ?s1 = "emit (Sleep (Timeout (retryPolicy s)))
               (emit (LogError ''Error reloading config, retrying...'')
                  (emit CallLoadConfig (s\<lparr>loadCalls := Suc (loadCalls s)\<rparr>)))"
    show ?thesis
    proof (cases "a = MaxInt")
      case True
      have "reloadAttempts s a e = Overflowed ?s1 (Some x)"
        using assms ld Some True by (subst reloadAttempts.simps) (simp add: Let_def)
      then show ?thesis by simp
    next
      case False
      have eq: "reloadAttempts s a e = reloadAttempts ?s1 (a + 1) (Some x)"
        using assms ld Some False by (simp add: reloadAttempts.simps [of s a e])
      have "loadCalls ?s1 \<le> loadCalls (state_of (reloadAttempts ?s1 (a + 1) (Some x)))"
        using evolves_reloadAttempts [of ?s1 "a + 1" "Some x"] unfolding evolves_def by blast
      then show ?thesis unfolding eq by simp
    qed
  qed
qed

subsection \<open>The managers of the examples\<close>

lemma reloadConfig_cm_published:
  "reloadConfig cm_published =
     Returned
       (cm_published
          \<lparr>errorChan := \<lparr>cap = 1, buf = [Some (GoError ''load error'')]\<rparr>,
           loadCalls := 4,
           trace := trace cm_published @
             [CallLoadConfig, LogError ''Error reloading config, retrying...'', Sleep 50000000,
              CallLoadConfig, LogError ''Error reloading config, retrying...'', Sleep 50000000,
              CallLoadConfig, LogError ''Error reloading config, retrying...'', Sleep 50000000,
              LogError ''Failed to reload config after retries'']\<rparr>) ()"
proof -
  have n: "int 3 = MaxAttempts (retryPolicy cm_published) + 1 - 1"
    by (simp add: cm_published_eq retry3_def)
  have b: "MaxAttempts (retryPolicy cm_published) < MaxInt"
    by (simp add: cm_published_eq retry3_def MaxInt_def)
  have f: "\<forall>k<3. snd (LoadConfig (loader cm_published) (loadCalls cm_published + k)) \<noteq> None"
    by (simp add: cm_published_eq mockLoader_ok_then_failing_def)
  show ?thesis
    unfolding reloadConfig_def reloadAttempts_all_fail [OF n b f, of None]
    by (simp add: reloadAttempts_exit chan_send_def retryEffects_def numeral_3_eq_3)
       (simp add: cm_published_eq retry3_def mockLoader_ok_then_failing_def emit_def)
qed

lemma cm_undrained_eq:
  "cm_undrained =
     \<lparr>loader = mockLoader_ok_then_failing, config = Some (Some appConf),
      configChan = \<lparr>cap = 1, buf = []\<rparr>,
      errorChan = \<lparr>cap = 1, buf = [Some (GoError ''load error'')]\<rparr>,
      watcher = Some mockWatcher_ok, once = True, logger = devLogger, retryPolicy = retry3,
      loadCalls = 4,
      trace = [CallLoadConfig, StoreConfig (Some appConf), CallWatcherAdd ''/path/to/config'',
               GoHandleFSNotify,
               CallLoadConfig, LogError ''Error reloading config, retrying...'', Sleep 50000000,
               CallLoadConfig, LogError ''Error reloading config, retrying...'', Sleep 50000000,
               CallLoadConfig, LogError ''Error reloading config, retrying...'', Sleep 50000000,
               LogError ''Failed to reload config after retries'']\<rparr>"
  unfolding cm_undrained_def reloadConfig_cm_published
  by (simp add: cm_published_eq)


subsection \<open>The write bit\<close>

lemma bit_two: "bit (2 :: 32 word) n \<longleftrightarrow> n = 1"
  by (auto simp: bit_2_iff)

lemma write_bit: "(w AND fsnotify_Write = fsnotify_Write) = bit (w :: 32 word) 1"
proof
  assume "w AND fsnotify_Write = fsnotify_Write"
  then have "bit (w AND 2) 1 = bit (2 :: 32 word) 1" by (simp add: fsnotify_Write_def)
  then show "bit w 1" unfolding bit_and_iff bit_two by simp
next
  assume "bit w 1"
  then have "\<And>n. bit (w AND 2) n = bit (2 :: 32 word) n"
    unfolding bit_and_iff bit_two by auto
  then show "w AND fsnotify_Write = fsnotify_Write"
    unfolding fsnotify_Write_def by (rule bit_eqI)
qed

lemma other_bits:
  assumes "w AND (fsnotify_Create OR fsnotify_Remove OR fsnotify_Rename OR fsnotify_Chmod)
             = (w :: 32 word)"
  shows "\<not> bit w 1"
proof
  assume "bit w 1"
  then have
    "bit (w AND (fsnotify_Create OR fsnotify_Remove OR fsnotify_Rename OR fsnotify_Chmod)) 1"
    using assms by simp
  then show False
    by (simp add: bit_and_iff fsnotify_Create_def fsnotify_Remove_def fsnotify_Rename_def
        fsnotify_Chmod_def)
qed

lemma HasPrefix_dot: "HasPrefix s ''.'' = (\<exists>t. s = CHR ''.'' # t)"
  by (cases s) (auto simp: HasPrefix_def)

subsection \<open>The watcher handle and the snapshot along a run\<close>

lemma watcher_cleanupWatcher: "watcher (cleanupWatcher s) = None"
  by (simp add: cleanupWatcher_def Let_def split: option.splits)

lemma run_keeps_nil_watcher: "watcher s = None \<Longrightarrow> watcher (run acts s) = None"
  using evolves_run [of s acts] by (simp add: evolves_def)




section \<open>Initialization\<close>

text \<open>A call of \<open>Init\<close> that finds the \<open>sync.Once\<close> already done runs nothing and leaves
  the manager as it is; its \<open>initErr\<close> is still nil.\<close>

lemma Init_later_call: "once s \<Longrightarrow> Init s = Returned s None"
  by (simp add: Init_def)

lemma Init_sets_once: "once (state_of (Init s))"
  by (cases "loadAndWatchConfig s")
     (auto simp: Init_def loadAndWatchConfig_def Let_def split: prod.splits option.splits)

text \<open>C1. Only the first call of \<open>Init\<close> runs the load-and-watch sequence and later calls
  have no side effect, but a later call does not return the result of the first attempt:
  on a manager whose loader fails, the first \<open>Init\<close> returns the load error and the
  second \<open>Init\<close>, on the state the first one left, returns nil.\<close>

theorem Init_second_call_after_failure:
  "Init cm_failing = Returned (state_of (Init cm_failing)) (Some (GoError ''load error''))
   \<and> Init (state_of (Init cm_failing)) = Returned (state_of (Init cm_failing)) None
   \<and> trace (state_of (Init cm_failing))
       = [CallLoadConfig, LogError ''Failed to load initial config'']"
  by (simp add: cm_failing_def Init_def loadAndWatchConfig_def NewConfigManager_def
      mockLoader_failing_def Let_def)

section \<open>Reload\<close>

text \<open>C2. With \<open>MaxAttempts = n\<close>, \<open>1 \<le> n < MaxInt\<close>, and every \<open>LoadConfig\<close> call of the
  reload failing, \<open>reloadConfig\<close> calls \<open>LoadConfig\<close> exactly \<open>n\<close> times, each call followed
  by a log entry and a sleep of \<open>Timeout\<close> (so a sleep separates consecutive attempts, and
  one more follows the last attempt), and then sends one value on the error channel, the
  error of the last attempt: the send completes when the channel has room, and parks
  the reload otherwise. (At \<open>MaxAttempts = MaxInt\<close> the counter wraps and nothing is
  sent, see \<open>reloadConfig_counter_wraps\<close>.)\<close>

theorem reloadConfig_retry_bound:
  assumes "MaxAttempts (retryPolicy s) = int n" and "1 \<le> n" and "int n < MaxInt"
    and "\<forall>k<n. snd (LoadConfig (loader s) (loadCalls s + k)) \<noteq> None"
  shows "reloadConfig s =
     (let s' = s\<lparr>loadCalls := loadCalls s + n,
                  trace := trace s @ concat (replicate n
                    [CallLoadConfig, LogError ''Error reloading config, retrying...'',
                     Sleep (Timeout (retryPolicy s))])\<rparr>;
          lastErr = snd (LoadConfig (loader s) (loadCalls s + n - 1))
      in if length (buf (errorChan s)) < cap (errorChan s)
         then Returned (emit (LogError ''Failed to reload config after retries'')
                 (s'\<lparr>errorChan := (errorChan s)\<lparr>buf := buf (errorChan s) @ [lastErr]\<rparr>\<rparr>)) ()
         else Blocked s' lastErr)"
proof -
  have "int n = MaxAttempts (retryPolicy s) + 1 - 1" using assms(1) by simp
  moreover have "MaxAttempts (retryPolicy s) < MaxInt" using assms(1,3) by simp
  ultimately show ?thesis
    using reloadAttempts_all_fail [of n s 1 None] assms(2,4)
    by (simp add: reloadConfig_def reloadAttempts_exit chan_send_def retryEffects_def Let_def)
qed

theorem reloadConfig_retry_bound_witness:
  "MaxAttempts (retryPolicy cm_failing) = int 3
   \<and> (1::nat) \<le> 3
   \<and> int 3 < MaxInt
   \<and> snd (LoadConfig (loader cm_failing) (loadCalls cm_failing + 0)) \<noteq> None
   \<and> snd (LoadConfig (loader cm_failing) (loadCalls cm_failing + 1)) \<noteq> None
   \<and> snd (LoadConfig (loader cm_failing) (loadCalls cm_failing + 2)) \<noteq> None
   \<and> reloadConfig cm_failing
     = Returned
        (cm_failing
          \<lparr>errorChan := \<lparr>cap = 1, buf = [Some (GoError ''load error'')]\<rparr>,
           loadCalls := 3,
           trace :=
             [CallLoadConfig, LogError ''Error reloading config, retrying...'', Sleep 50000000,
              CallLoadConfig, LogError ''Error reloading config, retrying...'', Sleep 50000000,
              CallLoadConfig, LogError ''Error reloading config, retrying...'', Sleep 50000000,
              LogError ''Failed to reload config after retries'']\<rparr>) ()"
proof -
  have 1: "MaxAttempts (retryPolicy cm_failing) = int 3"
    by (simp add: cm_failing_def NewConfigManager_def retry3_def)
  have 2: "(1::nat) \<le> 3" by simp
  have 3: "int 3 < MaxInt" by (simp add: MaxInt_def)
  have 4: "\<forall>k<3. snd (LoadConfig (loader cm_failing) (loadCalls cm_failing + k)) \<noteq> None"
    by (simp add: cm_failing_def NewConfigManager_def mockLoader_failing_def)
  have 5: "snd (LoadConfig (loader cm_failing) (loadCalls cm_failing + 0)) \<noteq> None
   \<and> snd (LoadConfig (loader cm_failing) (loadCalls cm_failing + 1)) \<noteq> None
   \<and> snd (LoadConfig (loader cm_failing) (loadCalls cm_failing + 2)) \<noteq> None"
    by (simp add: cm_failing_def NewConfigManager_def mockLoader_failing_def)
  from reloadConfig_retry_bound [OF 1 2 3 4]
  have "reloadConfig cm_failing
     = Returned
        (cm_failing
          \<lparr>errorChan := \<lparr>cap = 1, buf = [Some (GoError ''load error'')]\<rparr>,
           loadCalls := 3,
           trace :=
             [CallLoadConfig, LogError ''Error reloading config, retrying...'', Sleep 50000000,
              CallLoadConfig, LogError ''Error reloading config, retrying...'', Sleep 50000000,
              CallLoadConfig, LogError ''Error reloading config, retrying...'', Sleep 50000000,
              LogError ''Failed to reload config after retries'']\<rparr>) ()"
    by (simp add: cm_failing_def NewConfigManager_def mockLoader_failing_def retry3_def
        make_chan_def emit_def Let_def numeral_3_eq_3)
  with 1 2 3 5 show ?thesis by blast
qed

text \<open>C3. When every attempt of a reload fails (the \<open>MaxAttempts\<close> calls of \<open>LoadConfig\<close>
  it makes all return an error, \<open>MaxAttempts < MaxInt\<close>), the reload stores no snapshot
  at any point, neither up to its return or its parking on the full error channel nor
  when, once the listener has made room, it ends; the snapshot after it is the one
  before it, and \<open>GetConfig\<close>, called when the reload has ended, returns what it returned
  before.\<close>

theorem reloadConfig_failure_keeps_snapshot:
  assumes "MaxAttempts (retryPolicy s) < MaxInt"
    and "\<forall>k<nat (MaxAttempts (retryPolicy s)).
             snd (LoadConfig (loader s) (loadCalls s + k)) \<noteq> None"
  shows "config (state_of (reloadConfig s)) = config s
       \<and> (\<forall>c. StoreConfig c \<notin> set (effects_since s (state_of (reloadConfig s))))
       \<and> config (ended (reloadConfig s)) = config s
       \<and> (\<forall>c. StoreConfig c \<notin> set (effects_since s (ended (reloadConfig s))))
       \<and> (\<forall>p. GetConfig s = Returned s p \<longrightarrow>
              GetConfig (ended (reloadConfig s)) = Returned (ended (reloadConfig s)) p)"
proof -
  let ?n = "nat (MaxAttempts (retryPolicy s))"
  show ?thesis
  proof (cases "1 \<le> MaxAttempts (retryPolicy s)")
    case True
    then have n: "int ?n = MaxAttempts (retryPolicy s) + 1 - 1" by simp
    show ?thesis
      unfolding reloadConfig_def reloadAttempts_all_fail [OF n assms, of None]
      by (auto simp: reloadAttempts_exit chan_send_def GetConfig_def effects_since_def
          retryEffects_def split: option.splits)
  next
    case False
    then show ?thesis
      by (auto simp: reloadConfig_def reloadAttempts_exit chan_send_def GetConfig_def
          effects_since_def split: option.splits)
  qed
qed

theorem reloadConfig_failure_keeps_snapshot_witness:
  "MaxAttempts (retryPolicy cm_undrained) < MaxInt
   \<and> snd (LoadConfig (loader cm_undrained) (loadCalls cm_undrained + 0)) \<noteq> None
   \<and> snd (LoadConfig (loader cm_undrained) (loadCalls cm_undrained + 1)) \<noteq> None
   \<and> snd (LoadConfig (loader cm_undrained) (loadCalls cm_undrained + 2)) \<noteq> None
   \<and> buf (errorChan cm_undrained) = [Some (GoError ''load error'')]
   \<and> GetConfig cm_undrained = Returned cm_undrained (Some appConf)
   \<and> config (state_of (reloadConfig cm_undrained)) = Some (Some appConf)
   \<and> config (ended (reloadConfig cm_undrained)) = Some (Some appConf)
   \<and> GetConfig (ended (reloadConfig cm_undrained))
       = Returned (ended (reloadConfig cm_undrained)) (Some appConf)"
proof -
  have bound: "MaxAttempts (retryPolicy cm_undrained) < MaxInt"
    by (simp add: cm_undrained_eq retry3_def MaxInt_def)
  have fails: "\<forall>k<nat (MaxAttempts (retryPolicy cm_undrained)).
                 snd (LoadConfig (loader cm_undrained) (loadCalls cm_undrained + k)) \<noteq> None"
    by (simp add: cm_undrained_eq mockLoader_ok_then_failing_def)
  have before: "GetConfig cm_undrained = Returned cm_undrained (Some appConf)"
    by (simp add: GetConfig_def cm_undrained_eq)
  have cfg: "config cm_undrained = Some (Some appConf)"
    by (simp add: cm_undrained_eq)
  have full: "buf (errorChan cm_undrained) = [Some (GoError ''load error'')]"
    by (simp add: cm_undrained_eq)
  from reloadConfig_failure_keeps_snapshot [OF bound fails] before cfg
  have "config (state_of (reloadConfig cm_undrained)) = Some (Some appConf)
      \<and> config (ended (reloadConfig cm_undrained)) = Some (Some appConf)
      \<and> GetConfig (ended (reloadConfig cm_undrained))
       = Returned (ended (reloadConfig cm_undrained)) (Some appConf)"
    by simp
  moreover have "snd (LoadConfig (loader cm_undrained) (loadCalls cm_undrained + 0)) \<noteq> None
   \<and> snd (LoadConfig (loader cm_undrained) (loadCalls cm_undrained + 1)) \<noteq> None
   \<and> snd (LoadConfig (loader cm_undrained) (loadCalls cm_undrained + 2)) \<noteq> None"
    by (simp add: cm_undrained_eq mockLoader_ok_then_failing_def)
  ultimately show ?thesis using bound before full by simp
qed

section \<open>Failures of initialization\<close>

text \<open>C4. When the initial \<open>LoadConfig\<close> of the first \<open>Init\<close> call fails, \<open>Init\<close> returns
  that error; the only effects are the call of \<open>LoadConfig\<close> and one log entry, so
  \<open>Watcher.Add\<close> is not called and no background task is started.\<close>

theorem Init_initial_load_failure:
  assumes "\<not> once s" and "snd (LoadConfig (loader s) (loadCalls s)) = Some e"
  shows "Init s =
     Returned (s\<lparr>once := True, loadCalls := Suc (loadCalls s),
                 trace := trace s @ [CallLoadConfig, LogError ''Failed to load initial config'']\<rparr>)
       (Some e)"
  using assms
  by (auto simp: Init_def loadAndWatchConfig_def Let_def emit_def split: prod.splits)

theorem Init_initial_load_failure_witness:
  "\<not> once cm_failing
   \<and> snd (LoadConfig (loader cm_failing) (loadCalls cm_failing)) = Some (GoError ''load error'')
   \<and> Init cm_failing
      = Returned (cm_failing
           \<lparr>once := True, loadCalls := 1,
            trace := [CallLoadConfig, LogError ''Failed to load initial config'']\<rparr>)
          (Some (GoError ''load error''))"
proof -
  have 1: "\<not> once cm_failing" by (simp add: cm_failing_def NewConfigManager_def)
  have 2: "snd (LoadConfig (loader cm_failing) (loadCalls cm_failing)) = Some (GoError ''load error'')"
    by (simp add: cm_failing_def NewConfigManager_def mockLoader_failing_def)
  have 3: "loadCalls cm_failing = 0" "trace cm_failing = []"
    by (simp_all add: cm_failing_def NewConfigManager_def)
  from Init_initial_load_failure [OF 1 2]
  have "Init cm_failing
      = Returned (cm_failing
           \<lparr>once := True, loadCalls := 1,
            trace := [CallLoadConfig, LogError ''Failed to load initial config'']\<rparr>)
          (Some (GoError ''load error''))"
    by (simp add: 3)
  with 1 2 show ?thesis by blast
qed

text \<open>C5. When the initial load succeeds and \<open>Watcher.Add\<close> of the loader's path fails,
  \<open>Init\<close> returns the error of \<open>Add\<close> and starts no background task, and the loaded
  snapshot is already stored: \<open>GetConfig\<close> on the state \<open>Init\<close> leaves returns it.\<close>

theorem Init_watch_registration_failure:
  assumes "\<not> once s" and "LoadConfig (loader s) (loadCalls s) = (c, None)"
    and "watcher s = Some w" and "Add w (GetConfigPath (loader s)) = Some e"
  shows "Init s =
     Returned (s\<lparr>config := Some c, once := True, loadCalls := Suc (loadCalls s),
                 trace := trace s @ [CallLoadConfig, StoreConfig c,
                                     CallWatcherAdd (GetConfigPath (loader s)),
                                     LogError ''Failed to watch config file'']\<rparr>)
       (Some e)
     \<and> GetConfig (state_of (Init s)) = Returned (state_of (Init s)) c"
  using assms
  by (auto simp: Init_def loadAndWatchConfig_def GetConfig_def Let_def emit_def storeConfig_def
      split: prod.splits)

theorem Init_watch_registration_failure_witness:
  "\<not> once cm_unwatched
   \<and> LoadConfig (loader cm_unwatched) (loadCalls cm_unwatched) = (Some appConf, None)
   \<and> watcher cm_unwatched = Some mockWatcher_addFails
   \<and> Add mockWatcher_addFails (GetConfigPath (loader cm_unwatched)) = Some (GoError ''add error'')
   \<and> Init cm_unwatched
      = Returned (cm_unwatched
           \<lparr>config := Some (Some appConf), once := True, loadCalls := 1,
            trace := [CallLoadConfig, StoreConfig (Some appConf),
                      CallWatcherAdd ''/path/to/config'', LogError ''Failed to watch config file'']\<rparr>)
          (Some (GoError ''add error''))
   \<and> GetConfig (state_of (Init cm_unwatched)) = Returned (state_of (Init cm_unwatched)) (Some appConf)"
proof -
  have 1: "\<not> once cm_unwatched" by (simp add: cm_unwatched_def NewConfigManager_def)
  have 2: "LoadConfig (loader cm_unwatched) (loadCalls cm_unwatched) = (Some appConf, None)"
    by (simp add: cm_unwatched_def NewConfigManager_def mockLoader_ok_def)
  have 3: "watcher cm_unwatched = Some mockWatcher_addFails"
    by (simp add: cm_unwatched_def NewConfigManager_def)
  have 4: "Add mockWatcher_addFails (GetConfigPath (loader cm_unwatched)) = Some (GoError ''add error'')"
    by (simp add: mockWatcher_addFails_def)
  have 5: "loadCalls cm_unwatched = 0" "trace cm_unwatched = []"
    "GetConfigPath (loader cm_unwatched) = ''/path/to/config''"
    by (simp_all add: cm_unwatched_def NewConfigManager_def mockLoader_ok_def)
  from Init_watch_registration_failure [OF 1 2 3 4]
  have "Init cm_unwatched
      = Returned (cm_unwatched
           \<lparr>config := Some (Some appConf), once := True, loadCalls := 1,
            trace := [CallLoadConfig, StoreConfig (Some appConf),
                      CallWatcherAdd ''/path/to/config'', LogError ''Failed to watch config file'']\<rparr>)
          (Some (GoError ''add error''))
   \<and> GetConfig (state_of (Init cm_unwatched)) = Returned (state_of (Init cm_unwatched)) (Some appConf)"
    by (simp add: 5 GetConfig_def)
  with 1 2 3 4 show ?thesis by blast
qed

section \<open>The event loop\<close>

text \<open>C6. \<open>processFSNotifyEvent\<close> runs \<open>reloadConfig\<close> exactly when the write bit (bit 1
  of \<open>Op\<close>) is set and otherwise returns at once. With \<open>MaxAttempts \<ge> 1\<close> the count
  of \<open>LoadConfig\<close> calls grows exactly when the write bit is set. An event whose bits are
  all among create, remove, rename and chmod changes nothing.\<close>

theorem processFSNotifyEvent_write_only:
  "processFSNotifyEvent s ev = (if bit (Op ev) 1 then reloadConfig s else Returned s ())
   \<and> (processFSNotifyEvent s ev = reloadConfig s \<longleftrightarrow> bit (Op ev) 1)
   \<and> (1 \<le> MaxAttempts (retryPolicy s) \<longrightarrow>
        (loadCalls s < loadCalls (state_of (processFSNotifyEvent s ev)) \<longleftrightarrow> bit (Op ev) 1))
   \<and> (Op ev AND (fsnotify_Create OR fsnotify_Remove OR fsnotify_Rename OR fsnotify_Chmod) = Op ev
        \<longrightarrow> processFSNotifyEvent s ev = Returned s ())"
proof -
  have 1: "processFSNotifyEvent s ev = (if bit (Op ev) 1 then reloadConfig s else Returned s ())"
    by (simp add: processFSNotifyEvent_def write_bit)
  have 2: "processFSNotifyEvent s ev = reloadConfig s \<longleftrightarrow> bit (Op ev) 1"
    unfolding 1 using reloadConfig_not_idle [of s "()"] by auto
  have 3: "loadCalls s < loadCalls (state_of (processFSNotifyEvent s ev)) \<longleftrightarrow> bit (Op ev) 1"
    if "1 \<le> MaxAttempts (retryPolicy s)"
    unfolding 1 using reloadAttempts_calls_loader [OF that, of None]
    by (simp add: reloadConfig_def)
  have 4: "processFSNotifyEvent s ev = Returned s ()"
    if "Op ev AND (fsnotify_Create OR fsnotify_Remove OR fsnotify_Rename OR fsnotify_Chmod) = Op ev"
    unfolding 1 using other_bits [OF that] by simp
  from 1 2 3 4 show ?thesis by blast
qed

theorem processFSNotifyEvent_write_only_witness:
  "1 \<le> MaxAttempts (retryPolicy cm_published)
   \<and> bit (Op writeEvent) 1
   \<and> loadCalls cm_published < loadCalls (state_of (processFSNotifyEvent cm_published writeEvent))
   \<and> Op chmodEvent AND (fsnotify_Create OR fsnotify_Remove OR fsnotify_Rename OR fsnotify_Chmod)
        = Op chmodEvent
   \<and> processFSNotifyEvent cm_published chmodEvent = Returned cm_published ()"
proof -
  have 1: "1 \<le> MaxAttempts (retryPolicy cm_published)"
    by (simp add: cm_published_eq retry3_def)
  have 2: "bit (Op writeEvent) 1"
    by (simp add: writeEvent_def fsnotify_Write_def bit_two)
  have 3: "Op chmodEvent AND (fsnotify_Create OR fsnotify_Remove OR fsnotify_Rename OR fsnotify_Chmod)
        = Op chmodEvent"
    by (simp add: chmodEvent_def fsnotify_Create_def fsnotify_Remove_def fsnotify_Rename_def fsnotify_Chmod_def)
  from processFSNotifyEvent_write_only [of cm_published writeEvent] 1 2
  have 4: "loadCalls cm_published < loadCalls (state_of (processFSNotifyEvent cm_published writeEvent))"
    by blast
  from processFSNotifyEvent_write_only [of cm_published chmodEvent] 3
  have 5: "processFSNotifyEvent cm_published chmodEvent = Returned cm_published ()"
    by blast
  from 1 2 3 4 5 show ?thesis by blast
qed

text \<open>C7. \<open>cleanupWatcher\<close>, which the event loop runs on cancellation, clears the
  watcher handle. From then on, whatever calls reach the manager in between, \<open>AddWatcher\<close>
  and \<open>RemoveWatcher\<close> return the error "watcher not initialized" and leave the manager
  as it is: they do not panic and do not call the watcher.\<close>

theorem watch_management_after_teardown:
  "watcher (cleanupWatcher s) = None
   \<and> (watcher s \<noteq> None \<longrightarrow>
        handleFSNotify s (CtxDone # inputs) = Returned (cleanupWatcher s) ())
   \<and> AddWatcher (run acts (cleanupWatcher s)) p
       = (run acts (cleanupWatcher s), Some (GoError ''watcher not initialized''))
   \<and> RemoveWatcher (run acts (cleanupWatcher s)) p
       = (run acts (cleanupWatcher s), Some (GoError ''watcher not initialized''))"
proof -
  have "watcher (run acts (cleanupWatcher s)) = None"
    by (rule run_keeps_nil_watcher) (rule watcher_cleanupWatcher)
  then show ?thesis
    by (auto simp: watcher_cleanupWatcher AddWatcher_def RemoveWatcher_def)
qed

theorem watch_management_after_teardown_witness:
  "watcher cm_published \<noteq> None
   \<and> handleFSNotify cm_published [CtxDone] = Returned (cleanupWatcher cm_published) ()
   \<and> AddWatcher (run [CallInit, CallGetConfig] (cleanupWatcher cm_published)) ''/additional/path''
       = (run [CallInit, CallGetConfig] (cleanupWatcher cm_published),
          Some (GoError ''watcher not initialized''))
   \<and> RemoveWatcher (run [CallInit, CallGetConfig] (cleanupWatcher cm_published)) ''/additional/path''
       = (run [CallInit, CallGetConfig] (cleanupWatcher cm_published),
          Some (GoError ''watcher not initialized''))"
proof -
  have 1: "watcher cm_published \<noteq> None" by (simp add: cm_published_eq)
  from watch_management_after_teardown
         [of cm_published "[]" "[CallInit, CallGetConfig]" "''/additional/path''"] 1
  show ?thesis by blast
qed

section \<open>The snapshot and the configuration channel\<close>




text \<open>C9. The configuration channel is made with capacity 1 and empty, and no call of the
  manager sends on it: \<open>Init\<close>, the event loop, the handling of an event, the reload, the
  teardown, the watch management and \<open>GetConfig\<close> all leave it as it is, so it is still
  empty after any run from a new manager.\<close>

theorem configChan_never_sent:
  "configChan (NewConfigManager l w lg rp) = \<lparr>cap = 1, buf = []\<rparr>
   \<and> configChan (state_of (Init s)) = configChan s
   \<and> configChan (state_of (handleFSNotify s inputs)) = configChan s
   \<and> configChan (state_of (processFSNotifyEvent s ev)) = configChan s
   \<and> configChan (state_of (reloadConfig s)) = configChan s
   \<and> configChan (cleanupWatcher s) = configChan s
   \<and> configChan (fst (AddWatcher s p)) = configChan s
   \<and> configChan (fst (RemoveWatcher s p)) = configChan s
   \<and> configChan (state_of (GetConfig s)) = configChan s
   \<and> configChan (run acts (NewConfigManager l w lg rp)) = \<lparr>cap = 1, buf = []\<rparr>"
proof -
  have new: "configChan (NewConfigManager l w lg rp) = \<lparr>cap = 1, buf = []\<rparr>"
    by (simp add: NewConfigManager_def make_chan_def)
  have keep: "configChan t = configChan s" if "evolves s t" for s t
    using that by (simp add: evolves_def)
  have "configChan (fst (AddWatcher s p)) = configChan s"
    using evolves_perform [of s "CallAddWatcher p"] by (simp add: keep)
  moreover have "configChan (fst (RemoveWatcher s p)) = configChan s"
    using evolves_perform [of s "CallRemoveWatcher p"] by (simp add: keep)
  moreover have "configChan (state_of (GetConfig s)) = configChan s"
    by (simp add: GetConfig_def split: option.splits)
  moreover have "configChan (run acts (NewConfigManager l w lg rp)) = \<lparr>cap = 1, buf = []\<rparr>"
    using keep [OF evolves_run, of acts "NewConfigManager l w lg rp"] new by simp
  ultimately show ?thesis
    using new keep [OF evolves_Init] keep [OF evolves_handleFSNotify]
      keep [OF evolves_processFSNotifyEvent] keep [OF evolves_reloadConfig]
      keep [OF evolves_cleanupWatcher]
    by simp
qed

section \<open>Parser selection\<close>

text \<open>C10. With a logger, \<open>NewParser\<close> returns a JSON parser for the extensions \<open>json\<close>
  and \<open>.json\<close>, a YAML parser for \<open>yaml\<close>, \<open>.yaml\<close>, \<open>yml\<close> and \<open>.yml\<close>, and for any other
  extension the error "unsupported file extension" naming the extension with its leading
  dot; without a logger it returns an error whatever the extension.\<close>

theorem NewParser_by_extension:
  "NewParser ext (Some l) =
     (if ext \<in> {''json'', ''.json''} then (Some (JSONParser l), None)
      else if ext \<in> {''yaml'', ''.yaml'', ''yml'', ''.yml''} then (Some (YAMLParser l), None)
      else (None, Some (GoError (''unsupported file extension: '' @
              (if HasPrefix ext ''.'' then ext else ''.'' @ ext)))))
   \<and> NewParser ext None = (None, Some (GoError ''logger is required''))"
  by (auto simp: NewParser_def HasPrefix_dot Let_def)

theorem NewParser_by_extension_witness:
  "NewParser ''yml'' (Some devLogger) = (Some (YAMLParser devLogger), None)
   \<and> NewParser ''.json'' (Some devLogger) = (Some (JSONParser devLogger), None)
   \<and> NewParser ''.xml'' (Some devLogger)
       = (None, Some (GoError ''unsupported file extension: .xml''))
   \<and> NewParser ''.json'' None = (None, Some (GoError ''logger is required''))"
  using NewParser_by_extension [of "''yml''" devLogger] NewParser_by_extension [of "''.json''" devLogger]
    NewParser_by_extension [of "''.xml''" devLogger]
  by (simp add: HasPrefix_def)

end
